theory Spec2Isabelle
  imports Complex_Main "HOL-Library.Log_Nat"
begin

section \<open>Strings\<close>

text \<open>
  A JavaScript string is a sequence of UTF-16 code units, and \<open>length\<close>, \<open>charAt\<close>,
  \<open>substring\<close> and a regular expression without the \<open>u\<close> flag all count code units.
  A string is therefore a list of code units, each given by its number.
\<close>

type_synonym jsstring = "nat list"

text \<open>Notation for ASCII literals: \<open>js ''cat''\<close> is the string \<open>"cat"\<close>.\<close>

definition js :: "string \<Rightarrow> jsstring" where
  "js cs = map of_char cs"

text \<open>
  \<open>String.prototype.substring(start, end)\<close> clamps both indices to the length and swaps
  them when \<open>start > end\<close>; with one argument it runs to the end of the string.
  \<open>charAt(i)\<close> is the one-unit string at \<open>i\<close>, and the empty string out of range.
  The indices the reader passes are never negative, so they are naturals here.
\<close>

definition substring :: "jsstring \<Rightarrow> nat \<Rightarrow> nat \<Rightarrow> jsstring" where
  "substring s a b =
     (let a' = min a (length s); b' = min b (length s)
      in take (max a' b' - min a' b') (drop (min a' b') s))"

definition substringFrom :: "jsstring \<Rightarrow> nat \<Rightarrow> jsstring" where
  "substringFrom s a = drop (min a (length s)) s"

definition charAt :: "jsstring \<Rightarrow> nat \<Rightarrow> jsstring" where
  "charAt s i = (if i < length s then [s ! i] else [])"

section \<open>The optimal recognition point\<close>

record SpritzWord =
  prefix :: jsstring
  orp :: jsstring
  suffix :: jsstring

text \<open>\<open>getSpritzWord\<close> of \<open>Reader.tsx\<close>; \<open>!word\<close> holds of the empty string.\<close>

definition getSpritzWord :: "jsstring \<Rightarrow> SpritzWord" where
  "getSpritzWord word =
     (if word = [] then \<lparr>prefix = [], orp = [], suffix = []\<rparr>
      else
        let len = length word;
            orpIndex =
              (if len = 1 then 0
               else if len \<ge> 2 \<and> len \<le> 5 then 1
               else if len \<ge> 6 \<and> len \<le> 9 then 2
               else if len \<ge> 10 \<and> len \<le> 13 then 3
               else 4)
        in \<lparr>prefix = substring word 0 orpIndex,
            orp = charAt word orpIndex,
            suffix = substringFrom word (orpIndex + 1)\<rparr>)"

text \<open>
  The pivot table as the specification prints it, one row per range of the token
  length \<open>L\<close>: 1 gives 0, 2 to 5 give 1, 6 to 9 give 2, 10 to 13 give 3, 14 and more give 4.
\<close>

definition spec_pivot_index :: "nat \<Rightarrow> nat" where
  "spec_pivot_index L =
     (if L = 1 then 0
      else if L \<in> {2..5} then 1
      else if L \<in> {6..9} then 2
      else if L \<in> {10..13} then 3
      else 4)"

section \<open>The tokenizer\<close>

text \<open>
  The class \<open>\s\<close> of an ECMAScript regular expression: the white space and line
  terminator code points (tab, line feed, vertical tab, form feed, carriage return,
  space, no-break space, U+1680, U+2000 to U+200A, U+2028, U+2029, U+202F, U+205F,
  U+3000 and U+FEFF).
\<close>

definition isWhiteSpace :: "nat \<Rightarrow> bool" where
  "isWhiteSpace c \<longleftrightarrow>
     c = 9 \<or> c = 10 \<or> c = 11 \<or> c = 12 \<or> c = 13 \<or> c = 32 \<or> c = 160 \<or> c = 5760 \<or>
     (8192 \<le> c \<and> c \<le> 8202) \<or> c = 8232 \<or> c = 8233 \<or> c = 8239 \<or> c = 8287 \<or>
     c = 12288 \<or> c = 65279"

text \<open>
  \<open>content.split(/\s+/)\<close>: the scan keeps the piece read so far in \<open>cur\<close>; at a white
  space unit the piece is closed and the whole run of white space is consumed, as the
  greedy \<open>+\<close> does; at the end of the string the last piece is closed, also when it is
  empty. Hence a leading or trailing run yields an empty piece, and the empty string
  yields the single empty piece.
\<close>

function splitFrom :: "jsstring \<Rightarrow> jsstring \<Rightarrow> jsstring list" where
  "splitFrom cur [] = [cur]"
| "splitFrom cur (c # cs) =
     (if isWhiteSpace c then cur # splitFrom [] (dropWhile isWhiteSpace cs)
      else splitFrom (cur @ [c]) cs)"
  by pat_completeness auto
termination
  by (relation "measure (\<lambda>(cur, rest). length rest)")
     (auto simp: less_Suc_eq_le length_dropWhile_le)

definition split :: "jsstring \<Rightarrow> jsstring list" where
  "split s = splitFrom [] s"

text \<open>The initialiser of \<open>words\<close>: \<open>book.content.split(/\s+/).filter(w => w.length > 0)\<close>.\<close>

definition tokenize :: "jsstring \<Rightarrow> jsstring list" where
  "tokenize content = filter (\<lambda>w. length w > 0) (split content)"

text \<open>
  The token sequence in the words of the specification: the text is cut at runs of
  white space and nothing empty is kept, so the tokens are the maximal runs of units
  that are not white space, in the order in which they appear.
\<close>

function spec_tokenize :: "jsstring \<Rightarrow> jsstring list" where
  "spec_tokenize [] = []"
| "spec_tokenize (c # cs) =
     (if isWhiteSpace c then spec_tokenize cs
      else takeWhile (\<lambda>x. \<not> isWhiteSpace x) (c # cs)
             # spec_tokenize (dropWhile (\<lambda>x. \<not> isWhiteSpace x) cs))"
  by pat_completeness auto
termination
  by (relation "measure length") (auto simp: less_Suc_eq_le length_dropWhile_le)

section \<open>The reader\<close>

text \<open>The \<open>Book\<close> interface; the field \<open>id\<close> is \<open>book_id\<close> here.\<close>

record Book =
  book_id :: jsstring
  title :: jsstring
  content :: jsstring
  lastPosition :: int
  addedAt :: int

text \<open>
  The state of a mounted \<open>Reader\<close> component, as far as playback goes: the token
  sequence \<open>words\<close>, the cursor \<open>index\<close>, the flag \<open>isPlaying\<close>, the rate \<open>wpm\<close> of the
  settings it is given, and the one timeout it may have armed. Time is a virtual clock in
  milliseconds. A pending timeout is the pair of the time at which it is due and the
  rate that its callback has captured: the callback is a closure of the effect run that
  armed it, and re-arms with the rate of that run. The cursor and the rate are numbers
  that hold integers: the cursor starts at a persisted cursor and moves by whole steps,
  the rate comes from \<open>parseInt\<close>. An integer here stands for the double of the same
  value, and the sums and comparisons of the source are exact on the safe integers, from
  \<open>-(2^53 - 1)\<close> to \<open>2^53 - 1\<close>, among which every index of a token sequence lies.
\<close>

record reader_state =
  words :: "jsstring list"
  index :: int
  isPlaying :: bool
  wpm :: int
  pending :: "(real \<times> int) option"
  clock :: real

text \<open>
  Mounting: \<open>useState(book.lastPosition || 0)\<close>, \<open>useState(false)\<close> and the initialiser
  of \<open>words\<close>. The playback effect of the first render finds nothing to clear.
\<close>

definition Reader :: "Book \<Rightarrow> int \<Rightarrow> reader_state" where
  "Reader book settings_wpm =
     \<lparr>words = tokenize (content book),
      index = (if lastPosition book = 0 then 0 else lastPosition book),
      isPlaying = False,
      wpm = settings_wpm,
      pending = None,
      clock = 0\<rparr>"

text \<open>
  \<open>scheduleNext\<close> arms a timeout \<open>60000 / settings.wpm\<close> milliseconds from now, with the
  rate \<open>w\<close> of its closure, and stores it in \<open>timeoutRef\<close>. It is called when no other
  timeout is pending: by the effect, whose cleanup has just cleared the stored one, and by
  the callback of the stored one, which has just fired. One slot is therefore enough.
  \<open>clearTimeout(timeoutRef.current)\<close> cancels the stored timeout. The quotient is taken
  as the exact one; the rates of the settings are positive.
\<close>

definition scheduleNext :: "int \<Rightarrow> reader_state \<Rightarrow> reader_state" where
  "scheduleNext w s = s\<lparr>pending := Some (clock s + 60000 / real_of_int w, w)\<rparr>"

definition clearTimeout :: "reader_state \<Rightarrow> reader_state" where
  "clearTimeout s = s\<lparr>pending := None\<rparr>"

text \<open>
  The playback effect, with the dependencies \<open>[isPlaying, settings.wpm]\<close>: whenever one
  of the two has changed in a render, the cleanup of the previous run clears the stored
  timeout, and then the body runs again.
\<close>

definition playbackEffect :: "reader_state \<Rightarrow> reader_state" where
  "playbackEffect s = (if isPlaying s then scheduleNext (wpm s) s else clearTimeout s)"

definition rerunPlaybackEffect :: "reader_state \<Rightarrow> reader_state" where
  "rerunPlaybackEffect s = playbackEffect (clearTimeout s)"

definition handleTogglePlay :: "reader_state \<Rightarrow> reader_state" where
  "handleTogglePlay s = rerunPlaybackEffect (s\<lparr>isPlaying := \<not> isPlaying s\<rparr>)"

definition handleSkip :: "int \<Rightarrow> reader_state \<Rightarrow> reader_state" where
  "handleSkip amount s =
     s\<lparr>index := max 0 (min (int (length (words s)) - 1) (index s + amount))\<rparr>"

definition handleReset :: "reader_state \<Rightarrow> reader_state" where
  "handleReset s =
     (let s' = s\<lparr>index := 0, isPlaying := False\<rparr>
      in if isPlaying s then rerunPlaybackEffect s' else s')"

text \<open>
  \<open>onUpdateSettings({ wpm: w })\<close>, from the range input of the settings dialogue: the
  component is rendered again with the new rate, and the playback effect runs again when
  the rate differs from the one of the previous render.
\<close>

definition onUpdateSettings :: "int \<Rightarrow> reader_state \<Rightarrow> reader_state" where
  "onUpdateSettings w s =
     (let s' = s\<lparr>wpm := w\<rparr>
      in if w \<noteq> wpm s then rerunPlaybackEffect s' else s')"

text \<open>
  The callback of the timeout, a tick: it queues the update of the cursor and calls
  \<open>scheduleNext\<close>; the update then runs with the current cursor, and at the last index
  or beyond it calls \<open>setIsPlaying(false)\<close> and keeps the cursor. When that changes
  \<open>isPlaying\<close>, the playback effect runs again and clears the timeout just armed.
\<close>

definition timeoutCallback :: "int \<Rightarrow> reader_state \<Rightarrow> reader_state" where
  "timeoutCallback w s =
     (let s1 = scheduleNext w s
      in if index s1 \<ge> int (length (words s1)) - 1
         then (if isPlaying s1 then rerunPlaybackEffect (s1\<lparr>isPlaying := False\<rparr>) else s1)
         else s1\<lparr>index := index s1 + 1\<rparr>)"

text \<open>
  The passing of time, one event at a time: the clock moves to \<open>t\<close>, unless the pending
  timeout is due by then; in that case the clock moves to the time at which it is due
  and its callback runs.
\<close>

definition elapse :: "real \<Rightarrow> reader_state \<Rightarrow> reader_state" where
  "elapse t s =
     (case pending s of
        None \<Rightarrow> s\<lparr>clock := max (clock s) t\<rparr>
      | Some (due, w) \<Rightarrow>
          if due \<le> t then timeoutCallback w (s\<lparr>clock := max (clock s) due\<rparr>)
          else s\<lparr>clock := max (clock s) t\<rparr>)"

text \<open>
  The events of a session: the four controls, a change of the rate in the settings, and
  the passing of time. A session is a list of events applied in order to the state of
  the mounted reader.
\<close>

datatype event = TogglePlay | Skip int | Reset | SetRate int | Elapse real

fun step :: "event \<Rightarrow> reader_state \<Rightarrow> reader_state" where
  "step TogglePlay s = handleTogglePlay s"
| "step (Skip amount) s = handleSkip amount s"
| "step Reset s = handleReset s"
| "step (SetRate w) s = onUpdateSettings w s"
| "step (Elapse t) s = elapse t s"

definition run :: "event list \<Rightarrow> reader_state \<Rightarrow> reader_state" where
  "run es s = fold step es s"

text \<open>
  What the single slot for the timeout relies on: a timeout is pending exactly while the
  reader is playing, and the rate its callback has captured is the current rate.
\<close>

definition timer_consistent :: "reader_state \<Rightarrow> bool" where
  "timer_consistent s =
     (case pending s of
        None \<Rightarrow> \<not> isPlaying s
      | Some (due, w) \<Rightarrow> isPlaying s \<and> w = wpm s)"

text \<open>
  \<open>clamp(v, lo, hi)\<close> as the specification uses it: \<open>lo\<close> below \<open>lo\<close>, \<open>hi\<close> above
  \<open>hi\<close>, and \<open>v\<close> itself in between.
\<close>

definition spec_clamp :: "int \<Rightarrow> int \<Rightarrow> int \<Rightarrow> int" where
  "spec_clamp v lo hi = (if v < lo then lo else if hi < v then hi else v)"

section \<open>The progress indicators\<close>

text \<open>
  The value of a numeric expression: a number, an infinity, or \<open>NaN\<close>. A number is an
  IEEE 754 double, given by the rational it stands for; the sign of zero is not kept.
  Every arithmetic operation yields the double nearest to the exact result, ties going to
  the even significand: for a nonzero \<open>x\<close> with \<open>2^e \<le> |x| < 2^(e+1)\<close> the doubles
  around \<open>x\<close> are the multiples of \<open>2^(e - 52)\<close>, or of \<open>2^(-1074)\<close> when \<open>e < -1022\<close>, and
  a result of \<open>2^1024\<close> or more is an infinity: that is the case when \<open>e\<close> is 1024 or
  more, and when \<open>e\<close> is 1023 and the significand is rounded up to \<open>2^53\<close>.
\<close>

datatype jsnumber = Num rat | PosInfinity | NegInfinity | NaN

definition ilog2 :: "rat \<Rightarrow> int" where
  "ilog2 x =
     (let (n, d) = quotient_of x; e = bitlen n - bitlen d
      in if 2 powi e \<le> x then e else e - 1)"

definition roundHalfEven :: "rat \<Rightarrow> int" where
  "roundHalfEven x =
     (let f = \<lfloor>x\<rfloor>; r = x - of_int f
      in if r < 1 / 2 then f else if 1 / 2 < r then f + 1 else if even f then f else f + 1)"

definition toDouble :: "rat \<Rightarrow> jsnumber" where
  "toDouble x =
     (if x = 0 then Num 0
      else
        let e = ilog2 \<bar>x\<bar>;
            k = max e (- 1022) - 52;
            r = roundHalfEven (\<bar>x\<bar> / 2 powi k)
        in if 1024 \<le> e \<or> (e = 1023 \<and> r = 2 ^ 53)
           then (if 0 < x then PosInfinity else NegInfinity)
           else Num (sgn x * (of_int r * 2 powi k)))"

text \<open>
  The quotient of two numbers that hold integers. Dividing by zero raises nothing in
  JavaScript: \<open>0 / 0\<close> is \<open>NaN\<close>, and any other number over zero is an infinity of its
  sign; a zero denominator is \<open>+0\<close> here.
\<close>

definition jsdiv :: "int \<Rightarrow> int \<Rightarrow> jsnumber" where
  "jsdiv a b =
     (if b \<noteq> 0 then toDouble (rat_of_int a / rat_of_int b)
      else if a = 0 then NaN
      else if 0 < a then PosInfinity
      else NegInfinity)"

fun times100 :: "jsnumber \<Rightarrow> jsnumber" where
  "times100 (Num x) = toDouble (x * 100)"
| "times100 PosInfinity = PosInfinity"
| "times100 NegInfinity = NegInfinity"
| "times100 NaN = NaN"

text \<open>
  \<open>Math.round\<close> is the nearest integer, the upper one of two that are equally near; it
  is exact, and leaves an infinity and \<open>NaN\<close> as they are.
\<close>

fun mathRound :: "jsnumber \<Rightarrow> jsnumber" where
  "mathRound (Num x) = Num (of_int \<lfloor>x + 1 / 2\<rfloor>)"
| "mathRound PosInfinity = PosInfinity"
| "mathRound NegInfinity = NegInfinity"
| "mathRound NaN = NaN"

text \<open>
  The two ratios of the reader: the width of the bar,
  \<open>(index / (words.current.length - 1)) * 100\<close>, and the percentage,
  \<open>Math.round((index / words.current.length) * 100)\<close>.
\<close>

definition progressWidth :: "reader_state \<Rightarrow> jsnumber" where
  "progressWidth s = times100 (jsdiv (index s) (int (length (words s)) - 1))"

definition progressPercent :: "reader_state \<Rightarrow> jsnumber" where
  "progressPercent s = mathRound (times100 (jsdiv (index s) (int (length (words s)))))"

text \<open>
  The denominator of the ratio on a card of the library,
  \<open>book.content.split(/\s+/).length || 1\<close>.
\<close>

definition libraryDenominator :: "Book \<Rightarrow> int" where
  "libraryDenominator book =
     (let n = int (length (split (content book))) in if n = 0 then 1 else n)"

section \<open>Properties of the recognition point\<close>

lemma substring_zero: "substring s 0 b = take b s"
  by (simp add: substring_def Let_def min_def)

lemma substringFrom_drop: "substringFrom s a = drop a s"
  by (simp add: substringFrom_def min_def)

lemma spec_pivot_index_less: "0 < L \<Longrightarrow> spec_pivot_index L < L"
  by (simp add: spec_pivot_index_def)

lemma getSpritzWord_pivot:
  assumes "word \<noteq> []"
  shows "getSpritzWord word =
           \<lparr>prefix = take (spec_pivot_index (length word)) word,
            orp = [word ! spec_pivot_index (length word)],
            suffix = drop (Suc (spec_pivot_index (length word))) word\<rparr>"
proof -
  have pos: "0 < length word" using assms by simp
  have lt: "spec_pivot_index (length word) < length word"
    using pos by (rule spec_pivot_index_less)
  have idx: "(if length word = 1 then 0
              else if length word \<ge> 2 \<and> length word \<le> 5 then 1
              else if length word \<ge> 6 \<and> length word \<le> 9 then 2
              else if length word \<ge> 10 \<and> length word \<le> 13 then 3
              else 4) = spec_pivot_index (length word)"
    by (simp add: spec_pivot_index_def)
  have "getSpritzWord word =
          \<lparr>prefix = substring word 0 (spec_pivot_index (length word)),
           orp = charAt word (spec_pivot_index (length word)),
           suffix = substringFrom word (spec_pivot_index (length word) + 1)\<rparr>"
    unfolding getSpritzWord_def Let_def idx using assms by simp
  then show ?thesis
    using lt by (simp add: substring_zero substringFrom_drop charAt_def)
qed

text \<open>The examples of the specification: the pivot of each word and the index it sits at.\<close>

lemma getSpritzWord_examples:
  "getSpritzWord (js ''a'') = \<lparr>prefix = [], orp = js ''a'', suffix = []\<rparr>"
  "getSpritzWord (js ''cat'') = \<lparr>prefix = js ''c'', orp = js ''a'', suffix = js ''t''\<rparr>"
  "getSpritzWord (js ''alphabet'') = \<lparr>prefix = js ''al'', orp = js ''p'', suffix = js ''habet''\<rparr>"
  "getSpritzWord (js ''wonderland'') =
     \<lparr>prefix = js ''won'', orp = js ''d'', suffix = js ''erland''\<rparr>"
  "getSpritzWord (js ''extraordinary'') =
     \<lparr>prefix = js ''ext'', orp = js ''r'', suffix = js ''aordinary''\<rparr>"
  "getSpritzWord (js ''discombobulate'') =
     \<lparr>prefix = js ''disc'', orp = js ''o'', suffix = js ''mbobulate''\<rparr>"
  "getSpritzWord [] = \<lparr>prefix = [], orp = [], suffix = []\<rparr>"
  by (simp_all add: getSpritzWord_def js_def substring_def substringFrom_def charAt_def)

text \<open>
  Claim C5. For every non-empty token, the three parts that \<open>getSpritzWord\<close> returns
  concatenate to the token again: prefix, then pivot, then suffix.
\<close>

theorem orp_reconstitutes_token:
  assumes "t \<noteq> []"
  shows "prefix (getSpritzWord t) @ orp (getSpritzWord t) @ suffix (getSpritzWord t) = t"
proof -
  have "spec_pivot_index (length t) < length t"
    using assms by (simp add: spec_pivot_index_less)
  then have "take (spec_pivot_index (length t)) t @ [t ! spec_pivot_index (length t)]
               @ drop (Suc (spec_pivot_index (length t))) t = t"
    by (simp add: id_take_nth_drop [symmetric])
  then show ?thesis
    by (simp add: getSpritzWord_pivot [OF assms])
qed

theorem orp_reconstitutes_token_witness:
  "js ''cat'' \<noteq> [] \<and>
   prefix (getSpritzWord (js ''cat'')) @ orp (getSpritzWord (js ''cat''))
     @ suffix (getSpritzWord (js ''cat'')) = js ''cat''"
  using orp_reconstitutes_token [of "js ''cat''"] by (simp add: js_def)

text \<open>
  Claim C6. For every non-empty token the pivot index depends on the token length alone
  and is the one the table gives; it lies inside the token; the prefix is the characters
  before it, the pivot the single character at it, the suffix the characters after it.
\<close>

theorem orp_index_by_length_table:
  assumes "t \<noteq> []"
  shows "spec_pivot_index (length t) < length t \<and>
         prefix (getSpritzWord t) = take (spec_pivot_index (length t)) t \<and>
         orp (getSpritzWord t) = [t ! spec_pivot_index (length t)] \<and>
         suffix (getSpritzWord t) = drop (spec_pivot_index (length t) + 1) t"
  using assms by (simp add: getSpritzWord_pivot spec_pivot_index_less)

theorem orp_index_by_length_table_witness:
  "js ''cat'' \<noteq> [] \<and> spec_pivot_index (length (js ''cat'')) = 1 \<and>
   prefix (getSpritzWord (js ''cat'')) = js ''c'' \<and>
   orp (getSpritzWord (js ''cat'')) = js ''a'' \<and>
   suffix (getSpritzWord (js ''cat'')) = js ''t''"
  using orp_index_by_length_table [of "js ''cat''"]
  by (simp add: js_def spec_pivot_index_def)

section \<open>Properties of the tokenizer\<close>

lemma spec_tokenize_dropWhile:
  "spec_tokenize (dropWhile isWhiteSpace s) = spec_tokenize s"
  by (induction s) auto

lemma spec_tokenize_clean:
  assumes clean: "\<forall>c\<in>set cur. \<not> isWhiteSpace c" and ne: "cur \<noteq> []"
    and stop: "rest = [] \<or> isWhiteSpace (hd rest)"
  shows "spec_tokenize (cur @ rest) = cur # spec_tokenize rest"
proof -
  obtain x xs where cur: "cur = x # xs" using ne by (cases cur) auto
  have tw: "takeWhile (\<lambda>x. \<not> isWhiteSpace x) rest = []"
    using stop by (cases rest) auto
  have dw: "dropWhile (\<lambda>x. \<not> isWhiteSpace x) rest = rest"
    using stop by (cases rest) auto
  have t: "takeWhile (\<lambda>x. \<not> isWhiteSpace x) (cur @ rest) = cur"
    using clean tw by (simp add: takeWhile_append2)
  have d: "dropWhile (\<lambda>x. \<not> isWhiteSpace x) (xs @ rest) = rest"
    using clean dw by (simp add: cur dropWhile_append2)
  have "\<not> isWhiteSpace x" using clean by (simp add: cur)
  then have "spec_tokenize (cur @ rest) =
      takeWhile (\<lambda>x. \<not> isWhiteSpace x) (cur @ rest)
        # spec_tokenize (dropWhile (\<lambda>x. \<not> isWhiteSpace x) (xs @ rest))"
    by (simp add: cur)
  then show ?thesis by (simp only: t d)
qed

lemma tokens_splitFrom:
  "\<forall>c\<in>set cur. \<not> isWhiteSpace c \<Longrightarrow>
   filter (\<lambda>w. length w > 0) (splitFrom cur rest) = spec_tokenize (cur @ rest)"
proof (induction cur rest rule: splitFrom.induct)
  case (1 cur)
  then show ?case
    using spec_tokenize_clean [of cur "[]"] by (cases "cur = []") auto
next
  case (2 cur c cs)
  show ?case
  proof (cases "isWhiteSpace c")
    case True
    have tail: "filter (\<lambda>w. length w > 0) (splitFrom [] (dropWhile isWhiteSpace cs))
                  = spec_tokenize cs"
      using "2.IH"(1) [OF True] by (simp add: spec_tokenize_dropWhile)
    show ?thesis
    proof (cases "cur = []")
      case True
      with \<open>isWhiteSpace c\<close> tail show ?thesis by simp
    next
      case False
      have "spec_tokenize (cur @ c # cs) = cur # spec_tokenize (c # cs)"
        using "2.prems" False \<open>isWhiteSpace c\<close> by (intro spec_tokenize_clean) auto
      with \<open>isWhiteSpace c\<close> False tail show ?thesis by simp
    qed
  next
    case False
    then show ?thesis using "2.IH"(2) "2.prems" by simp
  qed
qed

lemma tokenize_refines: "tokenize s = spec_tokenize s"
  using tokens_splitFrom [of "[]" s] by (simp add: tokenize_def split_def)

lemma spec_tokenize_clean_tokens:
  "w \<in> set (spec_tokenize s) \<Longrightarrow> w \<noteq> [] \<and> (\<forall>c\<in>set w. \<not> isWhiteSpace c)"
proof (induction s rule: spec_tokenize.induct)
  case 1
  then show ?case by simp
next
  case (2 c cs)
  show ?case
  proof (cases "isWhiteSpace c")
    case True
    with "2.prems" have "w \<in> set (spec_tokenize cs)" by simp
    with True show ?thesis by (rule "2.IH"(1))
  next
    case False
    with "2.prems" consider
        (head) "w = c # takeWhile (\<lambda>x. \<not> isWhiteSpace x) cs"
      | (tail) "w \<in> set (spec_tokenize (dropWhile (\<lambda>x. \<not> isWhiteSpace x) cs))"
      by auto
    then show ?thesis
    proof cases
      case head
      have "\<forall>x\<in>set (takeWhile (\<lambda>x. \<not> isWhiteSpace x) cs). \<not> isWhiteSpace x"
        by (blast dest: set_takeWhileD)
      with False head show ?thesis by simp
    next
      case tail
      with False show ?thesis by (rule "2.IH"(2))
    qed
  qed
qed

lemma filter_takeWhile_same: "filter P (takeWhile P xs) = takeWhile P xs"
  by (induction xs) auto

lemma concat_spec_tokenize:
  "concat (spec_tokenize s) = filter (\<lambda>x. \<not> isWhiteSpace x) s"
proof (induction s rule: spec_tokenize.induct)
  case 1
  then show ?case by simp
next
  case (2 c cs)
  show ?case
  proof (cases "isWhiteSpace c")
    case True
    with 2 show ?thesis by simp
  next
    case False
    let ?P = "\<lambda>x. \<not> isWhiteSpace x"
    have "filter ?P cs = filter ?P (takeWhile ?P cs @ dropWhile ?P cs)"
      by simp
    also have "\<dots> = takeWhile ?P cs @ filter ?P (dropWhile ?P cs)"
      by (simp only: filter_append filter_takeWhile_same)
    finally have "filter ?P cs = takeWhile ?P cs @ concat (spec_tokenize (dropWhile ?P cs))"
      using "2.IH"(2) [OF False] by simp
    with False show ?thesis by simp
  qed
qed

lemma spec_tokenize_split_at_ws:
  assumes "isWhiteSpace c"
  shows "spec_tokenize (u @ c # v) = spec_tokenize u @ spec_tokenize v"
proof (induction u rule: spec_tokenize.induct)
  case 1
  from assms show ?case by simp
next
  case (2 x xs)
  let ?P = "\<lambda>x. \<not> isWhiteSpace x"
  have tw: "takeWhile ?P (ys @ c # v) = takeWhile ?P ys" for ys
    using assms by (induction ys) auto
  have dw: "dropWhile ?P (ys @ c # v) = dropWhile ?P ys @ c # v" for ys
    using assms by (induction ys) auto
  show ?case
  proof (cases "isWhiteSpace x")
    case True
    with "2.IH"(1) show ?thesis by simp
  next
    case False
    with "2.IH"(2) show ?thesis by (simp add: tw dw)
  qed
qed

text \<open>Cutting a text at a white space unit cuts its token sequence in two.\<close>

lemma tokenize_split_at_ws:
  "isWhiteSpace c \<Longrightarrow> tokenize (u @ c # v) = tokenize u @ tokenize v"
  by (simp add: tokenize_refines spec_tokenize_split_at_ws)

text \<open>A text without white space is its own single token, unless it is empty.\<close>

lemma tokenize_clean_text:
  assumes "\<forall>c\<in>set t. \<not> isWhiteSpace c"
  shows "tokenize t = (if t = [] then [] else [t])"
proof (cases "t = []")
  case True
  then show ?thesis by (simp add: tokenize_refines)
next
  case False
  with assms have "spec_tokenize (t @ []) = t # spec_tokenize []"
    by (intro spec_tokenize_clean) auto
  with False show ?thesis by (simp add: tokenize_refines)
qed

text \<open>
  Claim C7. \<open>tokenize\<close> cuts the text at runs of one or more white space characters
  and keeps no empty piece: its result is the sequence of maximal runs of other
  characters, in their order of appearance (the characters of the tokens, read in
  order, are the characters of the text that are not white space); the empty text has
  no token, \<open>"  a   b  "\<close> has the tokens \<open>"a"\<close> and \<open>"b"\<close>, and no token is empty or
  contains white space.
\<close>

theorem tokenize_whitespace_runs:
  "tokenize (js '''') = [] \<and>
   tokenize (js ''  a   b  '') = [js ''a'', js ''b''] \<and>
   tokenize s = spec_tokenize s \<and>
   concat (tokenize s) = filter (\<lambda>c. \<not> isWhiteSpace c) s \<and>
   (\<forall>w\<in>set (tokenize s). w \<noteq> [] \<and> (\<forall>c\<in>set w. \<not> isWhiteSpace c))"
proof -
  have "tokenize (js '''') = []"
    by (simp add: tokenize_def split_def js_def)
  moreover have "tokenize (js ''  a   b  '') = [js ''a'', js ''b'']"
    by (simp add: tokenize_def split_def js_def isWhiteSpace_def)
  moreover have "tokenize s = spec_tokenize s"
    by (rule tokenize_refines)
  moreover have "concat (tokenize s) = filter (\<lambda>c. \<not> isWhiteSpace c) s"
    by (simp add: tokenize_refines concat_spec_tokenize)
  moreover have "\<forall>w\<in>set (tokenize s). w \<noteq> [] \<and> (\<forall>c\<in>set w. \<not> isWhiteSpace c)"
    using spec_tokenize_clean_tokens [of _ s] by (simp add: tokenize_refines)
  ultimately show ?thesis by blast
qed

theorem tokenize_whitespace_runs_witness:
  "tokenize (js ''to be  or'') = [js ''to'', js ''be'', js ''or''] \<and>
   js ''be'' \<in> set (tokenize (js ''to be  or'')) \<and> js ''be'' \<noteq> [] \<and>
   \<not> isWhiteSpace (of_char CHR ''b'') \<and> \<not> isWhiteSpace (of_char CHR ''e'') \<and>
   concat (tokenize (js ''to be  or'')) = js ''tobeor''"
  using tokenize_whitespace_runs [of "js ''to be  or''"]
  by (simp add: js_def isWhiteSpace_def)

section \<open>Properties of the scheduler\<close>

lemmas reader_defs =
  scheduleNext_def clearTimeout_def playbackEffect_def rerunPlaybackEffect_def
  handleTogglePlay_def handleSkip_def handleReset_def onUpdateSettings_def
  timeoutCallback_def elapse_def

lemmas eval_defs =
  Reader_def tokenize_def split_def js_def isWhiteSpace_def

section \<open>Invariants of a session\<close>

lemma timer_consistent_step:
  assumes "timer_consistent s"
  shows "timer_consistent (step e s)"
  using assms
  by (cases e) (auto simp: timer_consistent_def reader_defs Let_def split: option.splits)

lemma words_step: "words (step e s) = words s"
  by (cases e) (auto simp: reader_defs Let_def split: option.splits)

lemma index_nonneg_step:
  assumes "0 \<le> index s"
  shows "0 \<le> index (step e s)"
  using assms by (cases e) (auto simp: reader_defs Let_def split: option.splits)

lemma index_in_range_step:
  assumes "words s \<noteq> []" and "0 \<le> index s" and "index s \<le> int (length (words s)) - 1"
  shows "index (step e s) \<le> int (length (words s)) - 1"
proof -
  have "0 \<le> int (length (words s)) - 1"
    using assms(1) by (cases "words s") simp_all
  with assms(2,3) show ?thesis
    by (cases e) (auto simp: reader_defs Let_def split: option.splits)
qed

lemma run_invariants:
  assumes "timer_consistent s" and "0 \<le> index s"
  shows "timer_consistent (run es s) \<and> 0 \<le> index (run es s) \<and> words (run es s) = words s"
  using assms
proof (induction es arbitrary: s)
  case Nil
  then show ?case by (simp add: run_def)
next
  case (Cons e es)
  have "timer_consistent (step e s)"
    using Cons.prems(1) by (rule timer_consistent_step)
  moreover have "0 \<le> index (step e s)"
    using Cons.prems(2) by (rule index_nonneg_step)
  ultimately have "timer_consistent (run es (step e s)) \<and> 0 \<le> index (run es (step e s)) \<and>
                   words (run es (step e s)) = words (step e s)"
    by (rule Cons.IH)
  then show ?case by (simp add: run_def words_step)
qed

text \<open>
  In every state that a session reaches from a book whose persisted position is not
  negative, a tick is pending exactly while the reader plays, with the current rate,
  and the cursor is not negative.
\<close>

lemma session_invariants:
  assumes "0 \<le> lastPosition book"
  shows "timer_consistent (run es (Reader book w)) \<and> 0 \<le> index (run es (Reader book w)) \<and>
         words (run es (Reader book w)) = tokenize (content book)"
proof -
  have "timer_consistent (Reader book w)"
    by (simp add: timer_consistent_def Reader_def)
  moreover have "0 \<le> index (Reader book w)"
    using assms by (simp add: Reader_def)
  ultimately show ?thesis
    using run_invariants [of "Reader book w" es] by (simp add: Reader_def)
qed

text \<open>
  On a book with tokens, a cursor that starts in range stays in range through every
  session.
\<close>

lemma session_cursor_in_range:
  assumes "words s \<noteq> []" and "0 \<le> index s" and "index s \<le> int (length (words s)) - 1"
  shows "0 \<le> index (run es s) \<and> index (run es s) \<le> int (length (words s)) - 1"
  using assms
proof (induction es arbitrary: s)
  case Nil
  then show ?case by (simp add: run_def)
next
  case (Cons e es)
  have w: "words (step e s) = words s" by (rule words_step)
  have "0 \<le> index (step e s)"
    using Cons.prems(2) by (rule index_nonneg_step)
  moreover have "index (step e s) \<le> int (length (words (step e s))) - 1"
    using index_in_range_step [OF Cons.prems] by (simp add: w)
  moreover have "words (step e s) \<noteq> []"
    using Cons.prems(1) by (simp add: w)
  ultimately have "0 \<le> index (run es (step e s)) \<and>
                   index (run es (step e s)) \<le> int (length (words (step e s))) - 1"
    by (intro Cons.IH)
  then show ?case by (simp add: run_def w)
qed

text \<open>\<open>handleReset\<close> ends at the first token, paused, with no tick pending.\<close>

lemma handleReset_result:
  assumes "timer_consistent s"
  shows "index (handleReset s) = 0 \<and> \<not> isPlaying (handleReset s) \<and>
         pending (handleReset s) = None"
  using assms
  by (auto simp: timer_consistent_def reader_defs Let_def split: option.splits)

text \<open>
  Claim C1. A tick that fires while the reader is playing, with the cursor a safe integer
  (from \<open>-(2^53 - 1)\<close> to \<open>2^53 - 1\<close>, which every index of a token sequence is), does one
  of two things. At the last index or beyond it (\<open>index \<ge> length - 1\<close>), playing stops,
  the cursor keeps its value and no timeout stays armed. Before the last index, the cursor
  moves on by one, the reader keeps playing and the next tick is armed.
\<close>

theorem tick_advances_or_pauses:
  assumes "isPlaying s"
    and "- 9007199254740991 \<le> index s" and "index s \<le> 9007199254740991"
  shows "(index s \<ge> int (length (words s)) - 1 \<longrightarrow>
            \<not> isPlaying (timeoutCallback w s) \<and>
            index (timeoutCallback w s) = index s \<and>
            pending (timeoutCallback w s) = None) \<and>
         (index s < int (length (words s)) - 1 \<longrightarrow>
            isPlaying (timeoutCallback w s) \<and>
            index (timeoutCallback w s) = index s + 1 \<and>
            pending (timeoutCallback w s) = Some (clock s + 60000 / real_of_int w, w))"
  using assms(1) by (simp add: reader_defs Let_def)

theorem tick_advances_or_pauses_witness:
  "isPlaying (handleTogglePlay (Reader
      \<lparr>book_id = js ''b1'', title = js ''T'', content = js ''a b c'',
       lastPosition = 0, addedAt = 0\<rparr> 600)) \<and>
   - 9007199254740991 \<le> index (handleTogglePlay (Reader
      \<lparr>book_id = js ''b1'', title = js ''T'', content = js ''a b c'',
       lastPosition = 0, addedAt = 0\<rparr> 600)) \<and>
   index (handleTogglePlay (Reader
      \<lparr>book_id = js ''b1'', title = js ''T'', content = js ''a b c'',
       lastPosition = 0, addedAt = 0\<rparr> 600)) \<le> 9007199254740991 \<and>
   index (timeoutCallback 600 (handleTogglePlay (Reader
      \<lparr>book_id = js ''b1'', title = js ''T'', content = js ''a b c'',
       lastPosition = 0, addedAt = 0\<rparr> 600))) = 1 \<and>
   isPlaying (timeoutCallback 600 (handleTogglePlay (Reader
      \<lparr>book_id = js ''b1'', title = js ''T'', content = js ''a b c'',
       lastPosition = 0, addedAt = 0\<rparr> 600))) \<and>
   isPlaying (handleTogglePlay (Reader
      \<lparr>book_id = js ''b1'', title = js ''T'', content = js ''a b c'',
       lastPosition = 2, addedAt = 0\<rparr> 600)) \<and>
   - 9007199254740991 \<le> index (handleTogglePlay (Reader
      \<lparr>book_id = js ''b1'', title = js ''T'', content = js ''a b c'',
       lastPosition = 2, addedAt = 0\<rparr> 600)) \<and>
   index (handleTogglePlay (Reader
      \<lparr>book_id = js ''b1'', title = js ''T'', content = js ''a b c'',
       lastPosition = 2, addedAt = 0\<rparr> 600)) \<le> 9007199254740991 \<and>
   index (timeoutCallback 600 (handleTogglePlay (Reader
      \<lparr>book_id = js ''b1'', title = js ''T'', content = js ''a b c'',
       lastPosition = 2, addedAt = 0\<rparr> 600))) = 2 \<and>
   \<not> isPlaying (timeoutCallback 600 (handleTogglePlay (Reader
      \<lparr>book_id = js ''b1'', title = js ''T'', content = js ''a b c'',
       lastPosition = 2, addedAt = 0\<rparr> 600)))"
  using
    tick_advances_or_pauses [of "handleTogglePlay (Reader
      \<lparr>book_id = js ''b1'', title = js ''T'', content = js ''a b c'',
       lastPosition = 0, addedAt = 0\<rparr> 600)" 600]
    tick_advances_or_pauses [of "handleTogglePlay (Reader
      \<lparr>book_id = js ''b1'', title = js ''T'', content = js ''a b c'',
       lastPosition = 2, addedAt = 0\<rparr> 600)" 600]
  by (simp add: reader_defs eval_defs)

text \<open>
  Claim C2, as the specification states it, fails: a change of the rate while playing
  does alter the wait in flight. Playing starts at 600 words per minute, so the first
  tick is due at 100 ms; at 50 ms the rate is set to 300. The timeout due at 100 ms is
  cleared and a new one is armed for 250 ms, so when the clock reaches the old boundary
  of 100 ms no tick fires and the cursor is still 0, whereas without the change of rate
  the tick does fire there and moves the cursor to 1.
\<close>

theorem rate_change_cancels_pending_tick:
  "pending (elapse 50 (handleTogglePlay (Reader
      \<lparr>book_id = js ''b1'', title = js ''T'', content = js ''a b c'',
       lastPosition = 0, addedAt = 0\<rparr> 600))) = Some (100, 600) \<and>
   pending (onUpdateSettings 300 (elapse 50 (handleTogglePlay (Reader
      \<lparr>book_id = js ''b1'', title = js ''T'', content = js ''a b c'',
       lastPosition = 0, addedAt = 0\<rparr> 600)))) = Some (250, 300) \<and>
   index (elapse 100 (onUpdateSettings 300 (elapse 50 (handleTogglePlay (Reader
      \<lparr>book_id = js ''b1'', title = js ''T'', content = js ''a b c'',
       lastPosition = 0, addedAt = 0\<rparr> 600))))) = 0 \<and>
   index (elapse 100 (elapse 50 (handleTogglePlay (Reader
      \<lparr>book_id = js ''b1'', title = js ''T'', content = js ''a b c'',
       lastPosition = 0, addedAt = 0\<rparr> 600)))) = 1"
  by (simp add: reader_defs eval_defs)

text \<open>
  Claim C2, amended. When the rate is set to a different positive value \<open>w\<close> while the
  reader is playing, the pending tick is cancelled and a new one is armed \<open>60000 / w\<close>
  milliseconds after the moment of the change: the wait in flight starts again with the
  new interval. The cursor and the playing flag are as before the change. When the new
  tick fires with the cursor before the last index, the tick after it is armed a further
  \<open>60000 / w\<close> milliseconds later; when it fires with the cursor at the last index or
  beyond it, the reader pauses and no tick is armed.
\<close>

theorem rate_change_rearms_with_new_interval:
  assumes "isPlaying s" and "w \<noteq> wpm s" and "0 < w"
  shows "pending (onUpdateSettings w s) = Some (clock s + 60000 / real_of_int w, w) \<and>
         index (onUpdateSettings w s) = index s \<and>
         isPlaying (onUpdateSettings w s) \<and>
         wpm (onUpdateSettings w s) = w \<and>
         (index s < int (length (words s)) - 1 \<longrightarrow>
            isPlaying (elapse (clock s + 60000 / real_of_int w) (onUpdateSettings w s)) \<and>
            pending (elapse (clock s + 60000 / real_of_int w) (onUpdateSettings w s)) =
              Some (clock s + 60000 / real_of_int w + 60000 / real_of_int w, w)) \<and>
         (index s \<ge> int (length (words s)) - 1 \<longrightarrow>
            \<not> isPlaying (elapse (clock s + 60000 / real_of_int w) (onUpdateSettings w s)) \<and>
            pending (elapse (clock s + 60000 / real_of_int w) (onUpdateSettings w s)) = None)"
proof -
  have "0 \<le> 60000 / real_of_int w"
    using assms(3) by simp
  then have "max (clock s) (clock s + 60000 / real_of_int w) = clock s + 60000 / real_of_int w"
    by (simp add: max_def)
  then show ?thesis
    using assms(1,2) by (simp add: reader_defs Let_def)
qed

theorem rate_change_rearms_with_new_interval_witness:
  "isPlaying (elapse 50 (handleTogglePlay (Reader
      \<lparr>book_id = js ''b1'', title = js ''T'', content = js ''a b c'',
       lastPosition = 0, addedAt = 0\<rparr> 600))) \<and>
   (0::int) < 300 \<and>
   300 \<noteq> wpm (elapse 50 (handleTogglePlay (Reader
      \<lparr>book_id = js ''b1'', title = js ''T'', content = js ''a b c'',
       lastPosition = 0, addedAt = 0\<rparr> 600))) \<and>
   pending (onUpdateSettings 300 (elapse 50 (handleTogglePlay (Reader
      \<lparr>book_id = js ''b1'', title = js ''T'', content = js ''a b c'',
       lastPosition = 0, addedAt = 0\<rparr> 600)))) = Some (250, 300) \<and>
   pending (elapse 250 (onUpdateSettings 300 (elapse 50 (handleTogglePlay (Reader
      \<lparr>book_id = js ''b1'', title = js ''T'', content = js ''a b c'',
       lastPosition = 0, addedAt = 0\<rparr> 600))))) = Some (450, 300) \<and>
   isPlaying (elapse 50 (handleTogglePlay (Reader
      \<lparr>book_id = js ''b1'', title = js ''T'', content = js ''a b c'',
       lastPosition = 2, addedAt = 0\<rparr> 600))) \<and>
   300 \<noteq> wpm (elapse 50 (handleTogglePlay (Reader
      \<lparr>book_id = js ''b1'', title = js ''T'', content = js ''a b c'',
       lastPosition = 2, addedAt = 0\<rparr> 600))) \<and>
   pending (onUpdateSettings 300 (elapse 50 (handleTogglePlay (Reader
      \<lparr>book_id = js ''b1'', title = js ''T'', content = js ''a b c'',
       lastPosition = 2, addedAt = 0\<rparr> 600)))) = Some (250, 300) \<and>
   \<not> isPlaying (elapse 250 (onUpdateSettings 300 (elapse 50 (handleTogglePlay (Reader
      \<lparr>book_id = js ''b1'', title = js ''T'', content = js ''a b c'',
       lastPosition = 2, addedAt = 0\<rparr> 600))))) \<and>
   pending (elapse 250 (onUpdateSettings 300 (elapse 50 (handleTogglePlay (Reader
      \<lparr>book_id = js ''b1'', title = js ''T'', content = js ''a b c'',
       lastPosition = 2, addedAt = 0\<rparr> 600))))) = None"
  using
    rate_change_rearms_with_new_interval [of "elapse 50 (handleTogglePlay (Reader
      \<lparr>book_id = js ''b1'', title = js ''T'', content = js ''a b c'',
       lastPosition = 0, addedAt = 0\<rparr> 600))" 300]
    rate_change_rearms_with_new_interval [of "elapse 50 (handleTogglePlay (Reader
      \<lparr>book_id = js ''b1'', title = js ''T'', content = js ''a b c'',
       lastPosition = 2, addedAt = 0\<rparr> 600))" 300]
  by (simp add: reader_defs eval_defs)

text \<open>
  Claim C3, as the specification states it, fails: \<open>handleTogglePlay\<close> has no guard for
  a document without tokens. On a book whose text is empty, the reader starts paused and
  the toggle sets it playing.
\<close>

theorem empty_document_enters_running:
  "words (Reader
      \<lparr>book_id = js ''b0'', title = js ''E'', content = js '''',
       lastPosition = 0, addedAt = 0\<rparr> 350) = [] \<and>
   \<not> isPlaying (Reader
      \<lparr>book_id = js ''b0'', title = js ''E'', content = js '''',
       lastPosition = 0, addedAt = 0\<rparr> 350) \<and>
   isPlaying (handleTogglePlay (Reader
      \<lparr>book_id = js ''b0'', title = js ''E'', content = js '''',
       lastPosition = 0, addedAt = 0\<rparr> 350))"
  by (simp add: reader_defs eval_defs)

text \<open>
  Claim C3, amended. On a document without tokens, with the cursor not negative, the
  toggle sets a paused reader playing and arms one tick; when that tick fires the reader
  is paused again, the cursor has not moved and no tick is pending. Playing an empty
  document thus lasts for one interval and never moves the cursor.
\<close>

theorem empty_document_play_ends_at_first_tick:
  assumes "words s = []" and "\<not> isPlaying s" and "0 \<le> index s"
  shows "isPlaying (handleTogglePlay s) \<and>
         pending (handleTogglePlay s) = Some (clock s + 60000 / real_of_int (wpm s), wpm s) \<and>
         \<not> isPlaying (elapse (clock s + 60000 / real_of_int (wpm s)) (handleTogglePlay s)) \<and>
         index (elapse (clock s + 60000 / real_of_int (wpm s)) (handleTogglePlay s)) = index s \<and>
         pending (elapse (clock s + 60000 / real_of_int (wpm s)) (handleTogglePlay s)) = None"
  using assms by (simp add: reader_defs Let_def)

theorem empty_document_play_ends_at_first_tick_witness:
  "words (Reader
      \<lparr>book_id = js ''b0'', title = js ''E'', content = js '''',
       lastPosition = 0, addedAt = 0\<rparr> 300) = [] \<and>
   \<not> isPlaying (Reader
      \<lparr>book_id = js ''b0'', title = js ''E'', content = js '''',
       lastPosition = 0, addedAt = 0\<rparr> 300) \<and>
   0 \<le> index (Reader
      \<lparr>book_id = js ''b0'', title = js ''E'', content = js '''',
       lastPosition = 0, addedAt = 0\<rparr> 300) \<and>
   pending (handleTogglePlay (Reader
      \<lparr>book_id = js ''b0'', title = js ''E'', content = js '''',
       lastPosition = 0, addedAt = 0\<rparr> 300)) = Some (200, 300) \<and>
   \<not> isPlaying (elapse 200 (handleTogglePlay (Reader
      \<lparr>book_id = js ''b0'', title = js ''E'', content = js '''',
       lastPosition = 0, addedAt = 0\<rparr> 300)))"
  using empty_document_play_ends_at_first_tick [of "Reader
      \<lparr>book_id = js ''b0'', title = js ''E'', content = js '''',
       lastPosition = 0, addedAt = 0\<rparr> 300"]
  by (simp add: reader_defs eval_defs)

text \<open>
  Claim C4, as the specification states it, fails: the persisted position is not clamped
  when a book is opened. A book of two tokens with the persisted position 5 opens with
  the cursor at 5, beyond the last index 1.
\<close>

theorem initial_cursor_not_clamped:
  "int (length (words (Reader
      \<lparr>book_id = js ''b2'', title = js ''T'', content = js ''one two'',
       lastPosition = 5, addedAt = 0\<rparr> 350))) \<le> 5 \<and>
   index (Reader
      \<lparr>book_id = js ''b2'', title = js ''T'', content = js ''one two'',
       lastPosition = 5, addedAt = 0\<rparr> 350) = 5 \<and>
   \<not> index (Reader
      \<lparr>book_id = js ''b2'', title = js ''T'', content = js ''one two'',
       lastPosition = 5, addedAt = 0\<rparr> 350)
     \<le> int (length (words (Reader
      \<lparr>book_id = js ''b2'', title = js ''T'', content = js ''one two'',
       lastPosition = 5, addedAt = 0\<rparr> 350))) - 1"
  by (simp add: eval_defs)

text \<open>
  Claim C4, amended. A book opens paused, with no tick pending, on the tokens of its
  text, and with the cursor equal to the persisted position as it is (0 when that is 0):
  nothing is clamped. The cursor is within \<open>[0, length - 1]\<close> whenever the persisted
  position is.
\<close>

theorem initial_state_paused_at_persisted_position:
  "\<not> isPlaying (Reader book w) \<and>
   pending (Reader book w) = None \<and>
   words (Reader book w) = tokenize (content book) \<and>
   index (Reader book w) = lastPosition book \<and>
   (0 \<le> lastPosition book \<and> lastPosition book \<le> int (length (tokenize (content book))) - 1
      \<longrightarrow> 0 \<le> index (Reader book w) \<and>
          index (Reader book w) \<le> int (length (words (Reader book w))) - 1)"
  by (simp add: Reader_def)

theorem initial_state_paused_at_persisted_position_witness:
  "(0::int) \<le> 1 \<and>
   1 \<le> int (length (tokenize (js ''one two''))) - 1 \<and>
   index (Reader
      \<lparr>book_id = js ''b2'', title = js ''T'', content = js ''one two'',
       lastPosition = 1, addedAt = 0\<rparr> 350) = 1 \<and>
   index (Reader
      \<lparr>book_id = js ''b2'', title = js ''T'', content = js ''one two'',
       lastPosition = 1, addedAt = 0\<rparr> 350)
     \<le> int (length (words (Reader
      \<lparr>book_id = js ''b2'', title = js ''T'', content = js ''one two'',
       lastPosition = 1, addedAt = 0\<rparr> 350))) - 1"
  using initial_state_paused_at_persisted_position [of
      "\<lparr>book_id = js ''b2'', title = js ''T'', content = js ''one two'',
        lastPosition = 1, addedAt = 0\<rparr>" 350]
  by (simp add: eval_defs)

lemma max_min_is_clamp: "0 \<le> hi \<Longrightarrow> max 0 (min hi v) = spec_clamp v 0 hi"
  by (auto simp: spec_clamp_def)

lemma clamp_in_range: "0 \<le> hi \<Longrightarrow> 0 \<le> spec_clamp v 0 hi \<and> spec_clamp v 0 hi \<le> hi"
  by (auto simp: spec_clamp_def)

text \<open>
  Claim C8. On a sequence that is not empty, \<open>handleSkip\<close> with any amount, playing
  or paused, from any cursor (in \<open>[0, length - 1]\<close> in particular), sets the cursor to
  the target \<open>index + amount\<close> clamped to \<open>[0, length - 1]\<close> and changes nothing else:
  not the playing flag, not the pending tick. The result is a state in every case, with
  the cursor in range; there is no error to signal.
\<close>

theorem skip_clamps_cursor:
  assumes "words s \<noteq> []"
  shows "index (handleSkip d s) = spec_clamp (index s + d) 0 (int (length (words s)) - 1) \<and>
         isPlaying (handleSkip d s) = isPlaying s \<and>
         handleSkip d s = s\<lparr>index := spec_clamp (index s + d) 0 (int (length (words s)) - 1)\<rparr> \<and>
         0 \<le> index (handleSkip d s) \<and>
         index (handleSkip d s) \<le> int (length (words s)) - 1"
proof -
  have hi: "0 \<le> int (length (words s)) - 1"
    using assms by (cases "words s") simp_all
  have eq: "max 0 (min (int (length (words s)) - 1) (index s + d)) =
            spec_clamp (index s + d) 0 (int (length (words s)) - 1)"
    using hi by (rule max_min_is_clamp)
  have rng: "0 \<le> spec_clamp (index s + d) 0 (int (length (words s)) - 1) \<and>
             spec_clamp (index s + d) 0 (int (length (words s)) - 1) \<le> int (length (words s)) - 1"
    using hi by (rule clamp_in_range)
  show ?thesis
    unfolding handleSkip_def eq using rng by simp
qed

theorem skip_clamps_cursor_witness:
  "words (Reader
      \<lparr>book_id = js ''b5'', title = js ''T'', content = js ''a b c d e'',
       lastPosition = 2, addedAt = 0\<rparr> 350) \<noteq> [] \<and>
   index (Reader
      \<lparr>book_id = js ''b5'', title = js ''T'', content = js ''a b c d e'',
       lastPosition = 2, addedAt = 0\<rparr> 350) = 2 \<and>
   index (handleSkip (- 100) (Reader
      \<lparr>book_id = js ''b5'', title = js ''T'', content = js ''a b c d e'',
       lastPosition = 2, addedAt = 0\<rparr> 350)) = 0 \<and>
   index (handleSkip 100 (Reader
      \<lparr>book_id = js ''b5'', title = js ''T'', content = js ''a b c d e'',
       lastPosition = 2, addedAt = 0\<rparr> 350)) = 4"
  using
    skip_clamps_cursor [of "Reader
      \<lparr>book_id = js ''b5'', title = js ''T'', content = js ''a b c d e'',
       lastPosition = 2, addedAt = 0\<rparr> 350" "- 100"]
    skip_clamps_cursor [of "Reader
      \<lparr>book_id = js ''b5'', title = js ''T'', content = js ''a b c d e'',
       lastPosition = 2, addedAt = 0\<rparr> 350" 100]
  by (simp add: eval_defs spec_clamp_def)

text \<open>
  Claim C10. On a sequence without tokens, \<open>handleSkip\<close> sets the cursor to 0 whatever
  the amount and whatever the cursor was: the upper bound \<open>length - 1\<close> is \<open>-1\<close>, and the
  outer \<open>Math.max(0, ...)\<close> wins. So the skip leaves the state as it is exactly when the
  cursor is 0 already.
\<close>

theorem skip_on_empty_sets_cursor_zero:
  assumes "words s = []"
  shows "index (handleSkip d s) = 0 \<and> (handleSkip d s = s \<longleftrightarrow> index s = 0)"
proof -
  have idx: "handleSkip d s = s\<lparr>index := 0\<rparr>"
    using assms by (simp add: handleSkip_def)
  have "s\<lparr>index := 0\<rparr> = s \<longleftrightarrow> index s = 0"
  proof
    assume "s\<lparr>index := 0\<rparr> = s"
    then have "index (s\<lparr>index := 0\<rparr>) = index s" by simp
    then show "index s = 0" by simp
  next
    assume "index s = 0"
    then show "s\<lparr>index := 0\<rparr> = s" by simp
  qed
  with idx show ?thesis by simp
qed

theorem skip_on_empty_sets_cursor_zero_witness:
  "words (Reader
      \<lparr>book_id = js ''b0'', title = js ''E'', content = js ''  '',
       lastPosition = 7, addedAt = 0\<rparr> 350) = [] \<and>
   index (Reader
      \<lparr>book_id = js ''b0'', title = js ''E'', content = js ''  '',
       lastPosition = 7, addedAt = 0\<rparr> 350) = 7 \<and>
   index (handleSkip 10 (Reader
      \<lparr>book_id = js ''b0'', title = js ''E'', content = js ''  '',
       lastPosition = 7, addedAt = 0\<rparr> 350)) = 0 \<and>
   handleSkip 10 (Reader
      \<lparr>book_id = js ''b0'', title = js ''E'', content = js ''  '',
       lastPosition = 7, addedAt = 0\<rparr> 350) \<noteq> Reader
      \<lparr>book_id = js ''b0'', title = js ''E'', content = js ''  '',
       lastPosition = 7, addedAt = 0\<rparr> 350"
  using skip_on_empty_sets_cursor_zero [of "Reader
      \<lparr>book_id = js ''b0'', title = js ''E'', content = js ''  '',
       lastPosition = 7, addedAt = 0\<rparr> 350" 10]
  by (simp add: eval_defs)

section \<open>Properties of the progress indicators\<close>

text \<open>
  Rounding to the nearest double: one tenth, and a tie above \<open>2^53\<close> on either side of
  zero.
\<close>

lemma toDouble_examples:
  "toDouble (1 / 10) = Num (3602879701896397 / 36028797018963968)"
  "toDouble (- 9007199254740993) = Num (- 9007199254740992)"
  "toDouble 9007199254740995 = Num 9007199254740996"
  by code_simp+

text \<open>
  At the cursor 23 of 40 tokens the quotient is the double below 0.575 and its hundredfold
  the double below 57.5, so the percentage shown is 57; halfway through it is 50.
\<close>

lemma progressPercent_examples:
  "progressPercent
     \<lparr>words = replicate 40 (js ''w''), index = 23, isPlaying = False, wpm = 350,
      pending = None, clock = 0\<rparr> = Num 57"
  "progressPercent
     \<lparr>words = replicate 40 (js ''w''), index = 20, isPlaying = False, wpm = 350,
      pending = None, clock = 0\<rparr> = Num 50"
  "progressWidth
     \<lparr>words = replicate 5 (js ''w''), index = 4, isPlaying = False, wpm = 350,
      pending = None, clock = 0\<rparr> = Num 100"
proof -
  have "mathRound (times100 (jsdiv 23 40)) = Num 57"
    by code_simp
  moreover have "mathRound (times100 (jsdiv 20 40)) = Num 50"
    by code_simp
  moreover have "times100 (jsdiv 4 4) = Num 100"
    by code_simp
  ultimately show
    "progressPercent
       \<lparr>words = replicate 40 (js ''w''), index = 23, isPlaying = False, wpm = 350,
        pending = None, clock = 0\<rparr> = Num 57"
    "progressPercent
       \<lparr>words = replicate 40 (js ''w''), index = 20, isPlaying = False, wpm = 350,
        pending = None, clock = 0\<rparr> = Num 50"
    "progressWidth
       \<lparr>words = replicate 5 (js ''w''), index = 4, isPlaying = False, wpm = 350,
        pending = None, clock = 0\<rparr> = Num 100"
    by (simp_all add: progressPercent_def progressWidth_def)
qed

text \<open>
  The denominator of the ratio on a library card is guarded: \<open>|| 1\<close> replaces a zero
  length by 1, so that ratio never divides by zero.
\<close>

lemma libraryDenominator_nonzero: "libraryDenominator book \<noteq> 0"
  by (simp add: libraryDenominator_def Let_def)

text \<open>
  Claim C9 asks that the ratios of the reader never divide by zero. The reader does not
  guard its two denominators. A book of one token opens with the cursor 0 and the
  denominator \<open>length - 1 = 0\<close> of the bar, whose width is then \<open>NaN\<close>; a book without
  tokens opens with the denominator \<open>length = 0\<close> of the percentage, which is then
  \<open>NaN\<close> as well.
\<close>

theorem reader_progress_divides_by_zero:
  "int (length (words (Reader
      \<lparr>book_id = js ''b1'', title = js ''T'', content = js ''hello'',
       lastPosition = 0, addedAt = 0\<rparr> 350))) - 1 = 0 \<and>
   progressWidth (Reader
      \<lparr>book_id = js ''b1'', title = js ''T'', content = js ''hello'',
       lastPosition = 0, addedAt = 0\<rparr> 350) = NaN \<and>
   int (length (words (Reader
      \<lparr>book_id = js ''b0'', title = js ''E'', content = js '''',
       lastPosition = 0, addedAt = 0\<rparr> 350))) = 0 \<and>
   progressPercent (Reader
      \<lparr>book_id = js ''b0'', title = js ''E'', content = js '''',
       lastPosition = 0, addedAt = 0\<rparr> 350) = NaN"
  by (simp add: eval_defs progressWidth_def progressPercent_def jsdiv_def)

end
